theory Spec2Isabelle
  imports Main
begin

section \<open>JavaScript values used by the router\<close>

text \<open>
  A JavaScript string is modelled as \<^typ>\<open>string\<close>; the router only compares
  code units with the ASCII characters \<open>#\<close>, \<open>/\<close>, \<open>?\<close>, \<open>:\<close> and \<open>*\<close>.
  A value of type \<open>string | undefined\<close> is a \<^typ>\<open>string option\<close>, \<open>None\<close> being
  \<open>undefined\<close>. Scores are JavaScript numbers that only ever hold small integers;
  they are modelled as \<^typ>\<open>int\<close>.
\<close>

text \<open>\<open>xs[i]\<close> on an array: \<open>undefined\<close> when \<open>i\<close> is out of range.\<close>

definition nth_opt :: "'a list \<Rightarrow> nat \<Rightarrow> 'a option" where
  "nth_opt xs i = (if i < length xs then Some (xs ! i) else None)"

text \<open>Truthiness of a \<open>string | undefined\<close>: \<open>undefined\<close> and \<open>''\<close> are falsy.\<close>

definition truthy :: "string option \<Rightarrow> bool" where
  "truthy v = (case v of None \<Rightarrow> False | Some s \<Rightarrow> s \<noteq> [])"

definition startsWith :: "string \<Rightarrow> string \<Rightarrow> bool" where
  "startsWith s p = (take (length p) s = p)"

definition endsWith :: "string \<Rightarrow> string \<Rightarrow> bool" where
  "endsWith s p = (length p \<le> length s \<and> drop (length s - length p) s = p)"

section \<open>Ranking\<close>

definition EXACT_MATCH :: int where "EXACT_MATCH = 3"
definition PARAMETER_MATCH :: int where "PARAMETER_MATCH = 2"
definition WILDCARD_MATCH :: int where "WILDCARD_MATCH = 1"

text \<open>
  How one pass through the body of \<open>for (let i = 0; i < route.length; i++)\<close> ends:
  \<open>continue\<close> with the score so far, \<open>break\<close> with it, or \<open>return\<close> of a value.
\<close>

datatype control = Continue int | Break int | Return int

text \<open>
  The loop \<open>for (let i = ...; i < n; i++) { body }; return score\<close>, started at index
  \<open>i\<close> with the given score.
\<close>

function for_loop :: "(nat \<Rightarrow> int \<Rightarrow> control) \<Rightarrow> nat \<Rightarrow> nat \<Rightarrow> int \<Rightarrow> int" where
  "for_loop body n i score =
     (if i < n then
        (case body i score of
           Continue s \<Rightarrow> for_loop body n (Suc i) s
         | Break s \<Rightarrow> s
         | Return r \<Rightarrow> r)
      else score)"
  by pat_completeness auto
termination
  by (relation "measure (\<lambda>(body, n, i, score). n - i)") auto

declare for_loop.simps [simp del]

text \<open>
  The score with which the loop arrives at index \<open>i\<close> when started at index \<open>0\<close> with
  score \<open>s\<close>: \<open>None\<close> when it left (by \<open>break\<close> or \<open>return\<close>) at an earlier index.
\<close>

fun arrives :: "(nat \<Rightarrow> int \<Rightarrow> control) \<Rightarrow> nat \<Rightarrow> int \<Rightarrow> int option" where
  "arrives body 0 s = Some s"
| "arrives body (Suc i) s =
     (case arrives body i s of
        None \<Rightarrow> None
      | Some s' \<Rightarrow> (case body i s' of Continue s'' \<Rightarrow> Some s'' | Break _ \<Rightarrow> None | Return _ \<Rightarrow> None))"

text \<open>
  \<open>#rank\<close> of the router class with the navigation lifecycle (Router.ts, second
  document, lines 305-345). The non-trailing wildcard branch adds to the score and then
  falls through to \<open>return 0\<close>: it has no \<open>continue\<close>.
\<close>

definition rank_body :: "string list \<Rightarrow> string list \<Rightarrow> nat \<Rightarrow> int \<Rightarrow> control" where
  "rank_body route user i score =
     (let uc = nth_opt user i; rc = route ! i in
      if Some rc = uc then Continue (score + EXACT_MATCH)
      else if rc \<noteq> [] \<and> startsWith rc '':'' then Continue (score + PARAMETER_MATCH)
      else if int i = int (length route) - 1 \<and> rc \<noteq> [] \<and> rc = ''*'' then
        (if \<not> truthy uc then Return 0
         else (let trailLength = int (length user) - 1 - int i
               in Break (score + trailLength * WILDCARD_MATCH)))
      else if rc \<noteq> [] \<and> rc = ''*'' then
        (let score = score + WILDCARD_MATCH in Return 0)
      else Return 0)"

definition rank :: "string list \<Rightarrow> string list \<Rightarrow> int" where
  "rank route user = for_loop (rank_body route user) (length route) 0 0"

text \<open>
  \<open>rank\<close> of the first router class (Router.ts, first document, lines 56-97): the
  trailing wildcard counts \<open>user.length - i\<close> and the non-trailing wildcard continues.
\<close>

definition rank_first_body :: "string list \<Rightarrow> string list \<Rightarrow> nat \<Rightarrow> int \<Rightarrow> control" where
  "rank_first_body route user i score =
     (let uc = nth_opt user i; rc = route ! i in
      if Some rc = uc then Continue (score + EXACT_MATCH)
      else if rc \<noteq> [] \<and> startsWith rc '':'' then Continue (score + PARAMETER_MATCH)
      else if int i = int (length route) - 1 \<and> rc \<noteq> [] \<and> rc = ''*'' then
        (if \<not> truthy uc then Return 0
         else (let trailLength = int (length user) - int i
               in Break (score + trailLength * WILDCARD_MATCH)))
      else if rc \<noteq> [] \<and> rc = ''*'' then Continue (score + WILDCARD_MATCH)
      else Return 0)"

definition rank_first :: "string list \<Rightarrow> string list \<Rightarrow> int" where
  "rank_first route user = for_loop (rank_first_body route user) (length route) 0 0"

text \<open>
  \<open>rank\<close> of the intermediate router class (unnamed part 000, lines 167-208): the
  trailing wildcard counts \<open>user.length-1 - i\<close> and the non-trailing wildcard continues.
\<close>

definition rank_mid_body :: "string list \<Rightarrow> string list \<Rightarrow> nat \<Rightarrow> int \<Rightarrow> control" where
  "rank_mid_body route user i score =
     (let uc = nth_opt user i; rc = route ! i in
      if Some rc = uc then Continue (score + EXACT_MATCH)
      else if rc \<noteq> [] \<and> startsWith rc '':'' then Continue (score + PARAMETER_MATCH)
      else if int i = int (length route) - 1 \<and> rc \<noteq> [] \<and> rc = ''*'' then
        (if \<not> truthy uc then Return 0
         else (let trailLength = int (length user) - 1 - int i
               in Break (score + trailLength * WILDCARD_MATCH)))
      else if rc \<noteq> [] \<and> rc = ''*'' then Continue (score + WILDCARD_MATCH)
      else Return 0)"

definition rank_mid :: "string list \<Rightarrow> string list \<Rightarrow> int" where
  "rank_mid route user = for_loop (rank_mid_body route user) (length route) 0 0"

section \<open>Path normalisation\<close>

text \<open>\<open>hash.replace(/#\/|#/, '')\<close>: the leftmost \<open>#\<close> is removed, together with a
  \<open>/\<close> that follows it directly; without a \<open>#\<close> the string is unchanged.\<close>

fun replace_hash :: "string \<Rightarrow> string" where
  "replace_hash [] = []"
| "replace_hash (c # cs) =
     (if c = CHR ''#'' then
        (case cs of [] \<Rightarrow> [] | d # ds \<Rightarrow> if d = CHR ''/'' then ds else cs)
      else c # replace_hash cs)"

text \<open>\<open>s.split(c)\<close> for a separator of one character: never empty, \<open>''.split(c)\<close> is
  \<open>['']\<close>.\<close>

fun js_split :: "char \<Rightarrow> string \<Rightarrow> string list" where
  "js_split c [] = [[]]"
| "js_split c (x # xs) =
     (if x = c then [] # js_split c xs
      else (case js_split c xs of [] \<Rightarrow> [[x]] | p # ps \<Rightarrow> (x # p) # ps))"

text \<open>\<open>Object.fromEntries\<close>: a later entry overwrites an earlier one with the same key.\<close>

definition fromEntries :: "(string \<times> string) list \<Rightarrow> (string \<rightharpoonup> string)" where
  "fromEntries kvs = map_of (rev kvs)"

record Route =
  string :: string
  segments :: "string list"
  queries :: "string \<rightharpoonup> string"

text \<open>
  The constructor of \<open>Router.Route\<close> (Router.ts, lines 244-252). The platform's
  \<open>URLSearchParams\<close> is the parameter \<open>usp\<close>: the list of name/value pairs it decodes
  from a query string. \<open>const [route, queryString] = noTrail.split('?')\<close> takes the first
  two pieces, the second being \<open>undefined\<close> when there is no \<open>?\<close>.
\<close>

definition new_Route :: "(string \<Rightarrow> (string \<times> string) list) \<Rightarrow> string \<Rightarrow> Route" where
  "new_Route usp hash =
     (let noHash = replace_hash hash;
          noLead = (if startsWith noHash ''/'' then drop 1 noHash else noHash);
          noTrail = (if endsWith noLead ''/'' then butlast noLead else noLead);
          pieces = js_split CHR ''?'' noTrail;
          route = hd pieces;
          queryString = nth_opt pieces 1
      in \<lparr> string = route,
           segments = js_split CHR ''/'' route,
           queries = (case queryString of
                        None \<Rightarrow> Map.empty
                      | Some q \<Rightarrow> if q \<noteq> [] then fromEntries (usp q) else Map.empty) \<rparr>)"

section \<open>The registry object\<close>

text \<open>
  \<open>#routes\<close> is an ordinary object used as a dictionary. It is modelled as the list of
  its own properties in the order in which \<open>for (const route in this.#routes)\<close> visits
  them: keys that are array indices (the canonical decimal form of a number below
  \<open>2^32 - 1\<close>, such as \<open>404\<close>) come first, in ascending numeric order, and every other
  key follows in the order of its creation. Keys that name a member of
  \<open>Object.prototype\<close> are outside the model.
\<close>

definition is_digit :: "char \<Rightarrow> bool" where
  "is_digit c = (48 \<le> (of_char c :: nat) \<and> (of_char c :: nat) \<le> 57)"

definition index_value :: "string \<Rightarrow> nat" where
  "index_value s = foldl (\<lambda>n c. 10 * n + ((of_char c :: nat) - 48)) 0 s"

definition is_array_index :: "string \<Rightarrow> bool" where
  "is_array_index s =
     (s \<noteq> [] \<and> list_all is_digit s \<and> (s = ''0'' \<or> hd s \<noteq> CHR ''0'')
      \<and> index_value s < 2 ^ 32 - 1)"

text \<open>Whether an existing key \<open>k'\<close> is visited before a newly created key \<open>k\<close>.\<close>

definition visited_before :: "string \<Rightarrow> string \<Rightarrow> bool" where
  "visited_before k k' =
     (if is_array_index k then is_array_index k' \<and> index_value k' < index_value k
      else True)"


definition obj_set :: "string \<Rightarrow> 'v \<Rightarrow> (string \<times> 'v) list \<Rightarrow> (string \<times> 'v) list" where
  "obj_set k v obj =
     (if k \<in> set (map fst obj) then map (\<lambda>(k', v'). if k' = k then (k', v) else (k', v')) obj
      else takeWhile (\<lambda>(k', v'). visited_before k k') obj @ (k, v)
           # dropWhile (\<lambda>(k', v'). visited_before k k') obj)"



section \<open>Router state\<close>

text \<open>
  The interfaces \<open>RouteChangeEvent\<close> and \<open>RouteEntry\<close> and the class \<open>Router\<close>. Field names
  that \<open>Router.Route\<close> already uses are prefixed: \<open>event_queries\<close> is the event's
  \<open>queries\<close>, \<open>entry_string\<close> and \<open>entry_segments\<close> are the entry's \<open>string\<close> and \<open>segments\<close>.
  A parameter bound to a missing request segment holds \<open>undefined\<close>, so the values of
  \<open>params\<close> and the elements of \<open>wildcards\<close> are of type \<open>string | undefined\<close>.
\<close>

record RouteChangeEvent =
  path :: string
  params :: "string \<rightharpoonup> string option"
  wildcards :: "string option list"
  event_queries :: "string \<rightharpoonup> string"

text \<open>
  How an awaited handler call ends: its promise is fulfilled (or it returned no
  promise), it threw or its promise was rejected, or its promise never settles.
\<close>

datatype settled = Fulfilled | Rejected | Pending

type_synonym NavigationHandler = "RouteChangeEvent \<Rightarrow> settled"

record Handlers =
  beforeExit :: NavigationHandler
  afterEnter :: NavigationHandler

record RouteEntry = Handlers +
  entry_string :: string
  entry_segments :: "string list"

record Router =
  routes :: "(string \<times> RouteEntry) list"
  currentRoute :: "string option"


text \<open>\<open>add\<close> (Router.ts, lines 182-190) and \<open>remove\<close> (lines 196-198).\<close>

definition add :: "(string \<Rightarrow> (string \<times> string) list) \<Rightarrow> string \<Rightarrow> Handlers \<Rightarrow> Router \<Rightarrow> Router" where
  "add usp hash handlers this =
     (let route = new_Route usp hash
      in this \<lparr> routes :=
           obj_set (string route)
             \<lparr> beforeExit = beforeExit handlers, afterEnter = afterEnter handlers,
               entry_string = string route, entry_segments = segments route \<rparr>
             (routes this) \<rparr>)"


section \<open>Matcher\<close>

text \<open>
  The \<open>for ... in\<close> loop of \<open>#chooseBest\<close> over the registry's properties, for a given
  ranking function; \<open>best\<close> is the pair \<open>[score, key]\<close>.
\<close>

fun chooseBest_loop ::
  "(string list \<Rightarrow> string list \<Rightarrow> int) \<Rightarrow> (string \<times> RouteEntry) list \<Rightarrow> string list
     \<Rightarrow> int \<times> string \<Rightarrow> int \<times> string" where
  "chooseBest_loop rk [] user best = best"
| "chooseBest_loop rk ((route, entry) # rest) user best =
     (let r = rk (entry_segments entry) user
      in chooseBest_loop rk rest user (if r > fst best then (r, route) else best))"


text \<open>\<open>#chooseBest\<close> of the intermediate class (unnamed part 000, lines 210-222): it
  returns \<open>best[1]\<close>, which is \<open>''\<close> when no entry scored.\<close>

definition chooseBest_mid :: "(string \<times> RouteEntry) list \<Rightarrow> string list \<Rightarrow> string" where
  "chooseBest_mid rs user = snd (chooseBest_loop rank_mid rs user (0, []))"

section \<open>Binder\<close>



subsection \<open>The binder as the specification words it\<close>






section \<open>Navigation\<close>











section \<open>Example values\<close>











section \<open>Properties of the loop\<close>

lemma for_loop_arrives:
  "arrives body i s0 = Some s \<Longrightarrow> i \<le> n \<Longrightarrow> for_loop body n 0 s0 = for_loop body n i s"
proof (induction i arbitrary: s)
  case 0
  then show ?case by simp
next
  case (Suc i)
  from Suc.prems(1) obtain s' where a: "arrives body i s0 = Some s'"
    and b: "body i s' = Continue s"
    by (auto split: option.splits control.splits)
  from Suc.prems(2) have "i < n" by simp
  with a b Suc.IH [of s'] show ?case
    by (simp add: for_loop.simps [of body n i])
qed

lemma for_loop_done:
  "n \<le> i \<Longrightarrow> for_loop body n i s = s"
  by (simp add: for_loop.simps [of body n i])

lemma for_loop_last:
  "Suc i = n \<Longrightarrow> for_loop body n i s =
     (case body i s of Continue s' \<Rightarrow> s' | Break s' \<Rightarrow> s' | Return r \<Rightarrow> r)"
  by (auto simp add: for_loop.simps [of body "Suc i" i] for_loop_done split: control.splits)

lemma for_loop_Return:
  "i < n \<Longrightarrow> body i s = Return r \<Longrightarrow> for_loop body n i s = r"
  by (simp add: for_loop.simps [of body n i])

lemma for_loop_Continue:
  "i < n \<Longrightarrow> body i s = Continue s' \<Longrightarrow> for_loop body n i s = for_loop body n (Suc i) s'"
  by (simp add: for_loop.simps [of body n i])

section \<open>Properties of the ranking\<close>

lemma arrives_Suc:
  "arrives body i s0 = Some s \<Longrightarrow> body i s = Continue s' \<Longrightarrow> arrives body (Suc i) s0 = Some s'"
  by simp

lemma for_loop_arrives_Return:
  "arrives body i s0 = Some s \<Longrightarrow> i < n \<Longrightarrow> body i s = Return r \<Longrightarrow> for_loop body n 0 s0 = r"
  by (simp add: for_loop_arrives [of body i s0 s n] for_loop_Return)

lemma for_loop_arrives_last:
  "arrives body i s0 = Some s \<Longrightarrow> Suc i = n \<Longrightarrow>
   for_loop body n 0 s0 = (case body i s of Continue s' \<Rightarrow> s' | Break s' \<Rightarrow> s' | Return r \<Rightarrow> r)"
  by (simp add: for_loop_arrives [of body i s0 s n] for_loop_last)

lemma startsWith_colon: "startsWith rc '':'' \<Longrightarrow> rc \<noteq> []"
  by (auto simp: startsWith_def)




lemma rank_body_wildcard:
  "nth_opt U i \<noteq> Some ''*'' \<Longrightarrow> P ! i = ''*'' \<Longrightarrow> Suc i < length P \<Longrightarrow>
   rank_body P U i s = Return 0"
  by (auto simp add: rank_body_def Let_def startsWith_def)

lemma rank_body_trailing:
  "P ! i = ''*'' \<Longrightarrow> Suc i = length P \<Longrightarrow>
   rank_body P U i s =
     (if \<not> truthy (nth_opt U i) then Return 0
      else if nth_opt U i = Some ''*'' then Continue (s + 3)
      else Break (s + (int (length U) - 1 - int i)))"
  by (auto simp add: rank_body_def Let_def startsWith_def EXACT_MATCH_def WILDCARD_MATCH_def truthy_def)





lemma rank_first_body_wildcard:
  "nth_opt U i \<noteq> Some ''*'' \<Longrightarrow> P ! i = ''*'' \<Longrightarrow> Suc i < length P \<Longrightarrow>
   rank_first_body P U i s = Continue (s + 1)"
  by (auto simp add: rank_first_body_def Let_def startsWith_def WILDCARD_MATCH_def)

lemma rank_first_body_trailing:
  "P ! i = ''*'' \<Longrightarrow> Suc i = length P \<Longrightarrow>
   rank_first_body P U i s =
     (if \<not> truthy (nth_opt U i) then Return 0
      else if nth_opt U i = Some ''*'' then Continue (s + 3)
      else Break (s + (int (length U) - int i)))"
  by (auto simp add: rank_first_body_def Let_def startsWith_def EXACT_MATCH_def WILDCARD_MATCH_def truthy_def)

lemma rank_mid_body_exact:
  "nth_opt U i = Some (P ! i) \<Longrightarrow> rank_mid_body P U i s = Continue (s + 3)"
  by (simp add: rank_mid_body_def EXACT_MATCH_def)

lemma rank_mid_body_parameter:
  "nth_opt U i \<noteq> Some (P ! i) \<Longrightarrow> startsWith (P ! i) '':'' \<Longrightarrow>
   rank_mid_body P U i s = Continue (s + 2)"
  by (auto simp add: rank_mid_body_def PARAMETER_MATCH_def Let_def dest: startsWith_colon)

lemma rank_mid_body_reject:
  "nth_opt U i \<noteq> Some (P ! i) \<Longrightarrow> \<not> startsWith (P ! i) '':'' \<Longrightarrow> P ! i \<noteq> ''*'' \<Longrightarrow>
   rank_mid_body P U i s = Return 0"
  by (auto simp add: rank_mid_body_def Let_def)

lemma rank_mid_body_wildcard:
  "nth_opt U i \<noteq> Some ''*'' \<Longrightarrow> P ! i = ''*'' \<Longrightarrow> Suc i < length P \<Longrightarrow>
   rank_mid_body P U i s = Continue (s + 1)"
  by (auto simp add: rank_mid_body_def Let_def startsWith_def WILDCARD_MATCH_def)

lemma rank_mid_body_trailing:
  "P ! i = ''*'' \<Longrightarrow> Suc i = length P \<Longrightarrow>
   rank_mid_body P U i s =
     (if \<not> truthy (nth_opt U i) then Return 0
      else if nth_opt U i = Some ''*'' then Continue (s + 3)
      else Break (s + (int (length U) - 1 - int i)))"
  by (auto simp add: rank_mid_body_def Let_def startsWith_def EXACT_MATCH_def WILDCARD_MATCH_def truthy_def)

lemma truthy_nth_opt: "truthy (nth_opt U i) \<Longrightarrow> i < length U"
  by (simp add: nth_opt_def truthy_def split: if_splits)

text \<open>
  C1 (as amended). Let the last segment of the pattern \<open>P\<close> be \<open>*\<close>, at index \<open>i\<close>, and let
  the scan arrive there with score \<open>s\<close>. If the request has no segment at index \<open>i\<close>, or an
  empty one, every variant of \<open>rank\<close> returns \<open>0\<close>. If the request segment is itself \<open>*\<close>,
  the exact-match branch comes first and the result is \<open>s + 3\<close>. Otherwise the scan stops
  at index \<open>i\<close> and adds at most \<open>1\<close> for each request segment from \<open>i\<close> to the end; the first
  \<open>rank\<close> adds exactly that, \<open>length U - i\<close>.
\<close>

theorem rank_trailing_wildcard:
  assumes "P \<noteq> []" and "last P = ''*''" and "i = length P - 1"
  shows "(arrives (rank_first_body P U) i 0 = Some s \<longrightarrow>
            rank_first P U = (if \<not> truthy (nth_opt U i) then 0
                              else if nth_opt U i = Some ''*'' then s + 3
                              else s + (int (length U) - int i)))
       \<and> (arrives (rank_body P U) i 0 = Some s \<longrightarrow>
            (\<not> truthy (nth_opt U i) \<longrightarrow> rank P U = 0)
            \<and> (nth_opt U i = Some ''*'' \<longrightarrow> rank P U = s + 3)
            \<and> (truthy (nth_opt U i) \<and> nth_opt U i \<noteq> Some ''*'' \<longrightarrow>
                 s \<le> rank P U \<and> rank P U \<le> s + (int (length U) - int i)))
       \<and> (arrives (rank_mid_body P U) i 0 = Some s \<longrightarrow>
            (\<not> truthy (nth_opt U i) \<longrightarrow> rank_mid P U = 0)
            \<and> (nth_opt U i = Some ''*'' \<longrightarrow> rank_mid P U = s + 3)
            \<and> (truthy (nth_opt U i) \<and> nth_opt U i \<noteq> Some ''*'' \<longrightarrow>
                 s \<le> rank_mid P U \<and> rank_mid P U \<le> s + (int (length U) - int i)))"
proof -
  from assms have n: "Suc i = length P" by simp
  from assms have star: "P ! i = ''*''" by (simp add: last_conv_nth)
  have first: "rank_first P U = (if \<not> truthy (nth_opt U i) then 0
                              else if nth_opt U i = Some ''*'' then s + 3
                              else s + (int (length U) - int i))"
    if a: "arrives (rank_first_body P U) i 0 = Some s"
    unfolding rank_first_def
    by (simp add: for_loop_arrives_last [OF a n] rank_first_body_trailing [OF star n])
  have live: "(\<not> truthy (nth_opt U i) \<longrightarrow> rank P U = 0)
            \<and> (nth_opt U i = Some ''*'' \<longrightarrow> rank P U = s + 3)
            \<and> (truthy (nth_opt U i) \<and> nth_opt U i \<noteq> Some ''*'' \<longrightarrow>
                 s \<le> rank P U \<and> rank P U \<le> s + (int (length U) - int i))"
    if a: "arrives (rank_body P U) i 0 = Some s"
  proof -
    have "rank P U = (if \<not> truthy (nth_opt U i) then 0
                      else if nth_opt U i = Some ''*'' then s + 3
                      else s + (int (length U) - 1 - int i))"
      unfolding rank_def
      by (simp add: for_loop_arrives_last [OF a n] rank_body_trailing [OF star n])
    then show ?thesis
      using truthy_nth_opt [of U i] by (auto simp: truthy_def)
  qed
  have mid: "(\<not> truthy (nth_opt U i) \<longrightarrow> rank_mid P U = 0)
            \<and> (nth_opt U i = Some ''*'' \<longrightarrow> rank_mid P U = s + 3)
            \<and> (truthy (nth_opt U i) \<and> nth_opt U i \<noteq> Some ''*'' \<longrightarrow>
                 s \<le> rank_mid P U \<and> rank_mid P U \<le> s + (int (length U) - int i))"
    if a: "arrives (rank_mid_body P U) i 0 = Some s"
  proof -
    have "rank_mid P U = (if \<not> truthy (nth_opt U i) then 0
                      else if nth_opt U i = Some ''*'' then s + 3
                      else s + (int (length U) - 1 - int i))"
      unfolding rank_mid_def
      by (simp add: for_loop_arrives_last [OF a n] rank_mid_body_trailing [OF star n])
    then show ?thesis
      using truthy_nth_opt [of U i] by (auto simp: truthy_def)
  qed
  from first live mid show ?thesis by blast
qed

text \<open>The theorem at the pattern \<open>user/*\<close>, and the inputs on which the formula
  \<open>length U - i\<close> for every request segment at index \<open>i\<close> fails.\<close>

theorem rank_trailing_wildcard_witness:
  "rank_first [''user'', ''*''] [''user'', ''settings'', ''edit''] = 5
   \<and> 3 \<le> rank [''user'', ''*''] [''user'', ''settings'', ''edit'']
   \<and> rank [''user'', ''*''] [''user'', ''settings'', ''edit''] \<le> 5
   \<and> 3 \<le> rank_mid [''user'', ''*''] [''user'', ''settings'', ''edit'']
   \<and> rank_mid [''user'', ''*''] [''user'', ''settings'', ''edit''] \<le> 5
   \<and> rank [''user'', ''*''] [''user''] = 0
   \<and> rank [''user'', ''*''] [''user'', ''*'', ''edit''] = 6"
  using rank_trailing_wildcard [of "[''user'', ''*'']" 1 "[''user'', ''settings'', ''edit'']" 3]
    rank_trailing_wildcard [of "[''user'', ''*'']" 1 "[''user'']" 3]
    rank_trailing_wildcard [of "[''user'', ''*'']" 1 "[''user'', ''*'', ''edit'']" 3]
  by (simp add: rank_body_def rank_mid_body_def rank_first_body_def Let_def EXACT_MATCH_def
      startsWith_def nth_opt_def truthy_def)

theorem rank_trailing_wildcard_counterexample:
  "rank [''user'', ''*''] [''user'', ''settings'', ''edit''] = 4
   \<and> rank [''user'', ''*''] [''user'', ''settings'', ''edit'']
       \<noteq> 3 + 1 * (int (length [''user'', ''settings'', ''edit'']) - 1)
   \<and> nth_opt [''user'', [], ''x''] 1 = Some []
   \<and> rank_first [''user'', ''*''] [''user'', [], ''x''] = 0
   \<and> rank_first [''*''] [''*'', ''a''] = 3
   \<and> rank [''*''] [''x''] = 0"
  by (simp add: rank_def rank_first_def for_loop.simps rank_body_def rank_first_body_def Let_def
      EXACT_MATCH_def WILDCARD_MATCH_def startsWith_def nth_opt_def truthy_def)




text \<open>
  A \<open>*\<close> before the last index that is not matched exactly: \<open>#rank\<close> returns \<open>0\<close>, the two
  earlier variants add \<open>1\<close> and go on.
\<close>

lemma rank_rejects_inner_wildcard:
  "arrives (rank_body P U) i 0 = Some s \<Longrightarrow> Suc i < length P \<Longrightarrow> P ! i = ''*'' \<Longrightarrow>
   nth_opt U i \<noteq> Some ''*'' \<Longrightarrow> rank P U = 0"
  unfolding rank_def
  by (rule for_loop_arrives_Return [where i = i and s = s]) (simp_all add: rank_body_wildcard)

lemma rank_first_inner_wildcard:
  "arrives (rank_first_body P U) i 0 = Some s \<Longrightarrow> Suc i < length P \<Longrightarrow> P ! i = ''*'' \<Longrightarrow>
   nth_opt U i \<noteq> Some ''*'' \<Longrightarrow> arrives (rank_first_body P U) (Suc i) 0 = Some (s + 1)"
  by (simp add: rank_first_body_wildcard)

lemma rank_mid_inner_wildcard:
  "arrives (rank_mid_body P U) i 0 = Some s \<Longrightarrow> Suc i < length P \<Longrightarrow> P ! i = ''*'' \<Longrightarrow>
   nth_opt U i \<noteq> Some ''*'' \<Longrightarrow> arrives (rank_mid_body P U) (Suc i) 0 = Some (s + 1)"
  by (simp add: rank_mid_body_wildcard)

text \<open>
  C2. The pattern \<open>user/*/hello\<close> against the request \<open>user/102954782/hello\<close>: the wildcard
  at index \<open>1\<close> should add \<open>1\<close> and the scan continue, for a score of \<open>3 + 1 + 3\<close>, as the two
  earlier variants compute; \<open>#rank\<close> returns \<open>0\<close>.
\<close>

theorem rank_inner_wildcard_example:
  "rank [''user'', ''*'', ''hello''] [''user'', ''102954782'', ''hello''] = 0
   \<and> rank_first [''user'', ''*'', ''hello''] [''user'', ''102954782'', ''hello''] = 7
   \<and> rank_mid [''user'', ''*'', ''hello''] [''user'', ''102954782'', ''hello''] = 7"
  by (simp add: rank_def rank_first_def rank_mid_def for_loop.simps rank_body_def
      rank_first_body_def rank_mid_body_def Let_def
      EXACT_MATCH_def WILDCARD_MATCH_def startsWith_def nth_opt_def truthy_def)

section \<open>Properties of the matcher\<close>

lemma chooseBest_loop_snoc:
  "chooseBest_loop rk (rs @ [(k, e)]) user best =
     (let b = chooseBest_loop rk rs user best; r = rk (entry_segments e) user
      in if r > fst b then (r, k) else b)"
  by (induction rs arbitrary: best) (auto simp: Let_def)

lemma chooseBest_loop_none:
  "\<forall>x\<in>set rs. rk (entry_segments (snd x)) user \<le> fst best \<Longrightarrow>
   chooseBest_loop rk rs user best = best"
  by (induction rs arbitrary: best) (auto simp: Let_def)













text \<open>The intermediate \<open>#chooseBest\<close> returns the empty string when no entry scored.\<close>

lemma chooseBest_mid_none:
  "\<forall>x\<in>set rs. rank_mid (entry_segments (snd x)) user \<le> 0 \<Longrightarrow> chooseBest_mid rs user = []"
proof -
  assume "\<forall>x\<in>set rs. rank_mid (entry_segments (snd x)) user \<le> 0"
  then have "\<forall>x\<in>set rs. rank_mid (entry_segments (snd x)) user \<le> fst (0 :: int, [] :: string)"
    by simp
  then have "chooseBest_loop rank_mid rs user (0, []) = (0, [])"
    by (rule chooseBest_loop_none)
  then show ?thesis by (simp add: chooseBest_mid_def)
qed







section \<open>Properties of the binder\<close>





section \<open>Properties of the normaliser and the registry\<close>


lemma js_split_not_Nil: "js_split c s \<noteq> []"
  by (induction s) (auto split: list.splits)













section \<open>Properties of the navigation\<close>





























end
